theory Spec2Isabelle
  imports Complex_Main "HOL-Library.AList"
begin

section \<open>Data model\<close>

text \<open>
  Shallow embedding of \<^verbatim>\<open>src/models.py\<close>: the early-stopping class, the training,
  validation and test passes, ensemble inference, the per-class accumulator and the
  metrics computation. Python integers are \<open>int\<close>, every exception is a value of
  \<open>error\<close> on the left of a sum. Losses and metric values are exact rationals. The
  scores of a network are \<open>float32\<close> values with infinities and NaN.
\<close>

datatype error =
    ZeroDivisionError
  | UnboundLocalError
  | IndexError
  | RuntimeError
  | TypeError

text \<open>
  A \<open>float32\<close> value is a finite number, an infinity or NaN. \<open>float_max\<close> is the
  largest finite value, \<open>2^128 - 2^104\<close>; a result of magnitude \<open>2^128 - 2^103\<close> or
  more rounds to an infinity, a smaller one beyond \<open>float_max\<close> rounds to \<open>float_max\<close>.
  Rounding inside the finite range is not modelled.
\<close>

datatype fl = Finite rat | PosInf | NegInf | NaN

definition float_max :: rat where
  "float_max = 340282346638528859811704183484516925440"

definition float_overflow :: rat where
  "float_overflow = 340282356779733661637539395458142568448"

definition fl_round :: "rat \<Rightarrow> fl" where
  "fl_round q =
     (if q \<ge> float_overflow then PosInf
      else if q \<le> - float_overflow then NegInf
      else Finite (max (- float_max) (min float_max q)))"

fun fl_add :: "fl \<Rightarrow> fl \<Rightarrow> fl" where
  "fl_add NaN y = NaN"
| "fl_add x NaN = NaN"
| "fl_add PosInf NegInf = NaN"
| "fl_add NegInf PosInf = NaN"
| "fl_add PosInf y = PosInf"
| "fl_add x PosInf = PosInf"
| "fl_add NegInf y = NegInf"
| "fl_add x NegInf = NegInf"
| "fl_add (Finite a) (Finite b) = fl_round (a + b)"

fun fl_div_count :: "fl \<Rightarrow> nat \<Rightarrow> fl" where
  \<comment> \<open>division by a positive count\<close>
  "fl_div_count (Finite a) n = fl_round (a / of_nat n)"
| "fl_div_count x n = x"

fun fl_gt :: "fl \<Rightarrow> fl \<Rightarrow> bool" where
  \<comment> \<open>the order \<^verbatim>\<open>torch.argmax\<close> uses: NaN counts as the greatest value\<close>
  "fl_gt x NaN = False"
| "fl_gt NaN y = True"
| "fl_gt x PosInf = False"
| "fl_gt PosInf y = True"
| "fl_gt NegInf y = False"
| "fl_gt (Finite a) NegInf = True"
| "fl_gt (Finite a) (Finite b) = (a > b)"

text \<open>A 2-D score tensor of shape \<open>[batch, num_classes]\<close> is the list of its rows.\<close>

type_synonym tensor = "fl list list"

text \<open>
  A Python \<^verbatim>\<open>dict\<close> is an association list in insertion order; \<open>AList.update\<close>
  overwrites a present key in place and appends an absent one, as item assignment does.
\<close>

type_synonym ('k, 'v) dict = "('k \<times> 'v) list"

definition dict_get :: "('k, 'v) dict \<Rightarrow> 'k \<Rightarrow> 'v \<Rightarrow> 'v" where
  \<comment> \<open>\<^verbatim>\<open>d.get(k, default)\<close>\<close>
  "dict_get d k dflt = (case map_of d k of None \<Rightarrow> dflt | Some v \<Rightarrow> v)"

definition dd_incr :: "(int, int) dict \<Rightarrow> int \<Rightarrow> (int, int) dict" where
  \<comment> \<open>\<^verbatim>\<open>d[k] += 1\<close> on a \<^verbatim>\<open>defaultdict(int)\<close>\<close>
  "dd_incr d k = AList.update k (dict_get d k 0 + 1) d"

definition dd_append :: "(int, int list) dict \<Rightarrow> int \<Rightarrow> int \<Rightarrow> (int, int list) dict" where
  \<comment> \<open>\<^verbatim>\<open>d[k].append(v)\<close> on a \<^verbatim>\<open>defaultdict(list)\<close>\<close>
  "dd_append d k v = AList.update k (dict_get d k [] @ [v]) d"

definition dict_values_sum :: "('k, int) dict \<Rightarrow> int" where
  \<comment> \<open>\<^verbatim>\<open>sum(d.values())\<close>\<close>
  "dict_values_sum d = sum_list (map snd d)"

text \<open>
  A network: its parameters, its forward function, and the \<^verbatim>\<open>num_classes\<close>
  attribute of \<^verbatim>\<open>ResNet18\<close>. The layers themselves are not modelled.
\<close>

record ('img, 'p) module =
  params :: 'p
  forward_fn :: "'p \<Rightarrow> 'img \<Rightarrow> tensor"
  num_classes :: int

definition forward :: "('img, 'p) module \<Rightarrow> 'img \<Rightarrow> tensor" where
  \<comment> \<open>\<^verbatim>\<open>model(x)\<close>\<close>
  "forward m x = forward_fn m (params m) x"

text \<open>
  Module objects are mutated in place and shared by reference. Where that matters (early
  stopping) a module is named by a reference, and a store gives the state each module
  object has now. \<^verbatim>\<open>model.state_dict()\<close> makes no copy: the dictionary it returns
  holds the parameter tensors of the module themselves, so it is a view of the module's
  parameters and reads whatever they are at the time of reading.
\<close>

type_synonym ref = nat

type_synonym ('img, 'p) store = "ref \<Rightarrow> ('img, 'p) module"

datatype param_view = ParamsOf ref

definition state_dict :: "ref \<Rightarrow> param_view" where
  "state_dict model = ParamsOf model"

definition read_view :: "('img, 'p) store \<Rightarrow> param_view \<Rightarrow> 'p" where
  "read_view st v = (case v of ParamsOf r \<Rightarrow> params (st r))"

definition train_in_place :: "('img, 'p) store \<Rightarrow> ref \<Rightarrow> 'p \<Rightarrow> ('img, 'p) store" where
  \<comment> \<open>optimizer steps on the module \<open>model\<close> that leave it with the parameters \<open>p\<close>\<close>
  "train_in_place st model p = st(model := (st model)\<lparr>params := p\<rparr>)"


text \<open>One batch of a \<^verbatim>\<open>DataLoader\<close>, and the loader with the size of its dataset.\<close>

record 'img sample =
  image :: 'img
  label :: "int list"

record 'img data_loader =
  batches :: "'img sample list"
  dataset_len :: int

section \<open>Early stopping\<close>

record early_stopping =
  patience :: int
  delta :: rat
  best_score :: "rat option"
  early_stop :: bool
  counter :: int
  best_model_state :: "param_view option"
  epoch_stop :: int

definition EarlyStopping :: "int \<Rightarrow> rat \<Rightarrow> early_stopping" where
  \<comment> \<open>\<^verbatim>\<open>EarlyStopping.__init__\<close>\<close>
  "EarlyStopping pat dlt =
     \<lparr>patience = pat, delta = dlt, best_score = None, early_stop = False,
      counter = 0, best_model_state = None, epoch_stop = 0\<rparr>"

definition es_call ::
  "(rat \<Rightarrow> rat) \<Rightarrow> early_stopping \<Rightarrow> rat \<Rightarrow> ref \<Rightarrow> int \<Rightarrow> early_stopping" where
  \<comment> \<open>\<^verbatim>\<open>EarlyStopping.__call__(val_loss, model, epoch)\<close>. The parameter \<open>rnd\<close> is
      the rounding of the float sum \<^verbatim>\<open>self.best_score + self.delta\<close>.\<close>
  "es_call rnd self val_loss model epoch =
     (let score = - val_loss in
      case best_score self of
        None \<Rightarrow> self\<lparr>best_score := Some score, best_model_state := Some (state_dict model)\<rparr>
      | Some best \<Rightarrow>
          if score < rnd (best + delta self) then
            (let self1 = self\<lparr>counter := counter self + 1\<rparr> in
             if counter self1 \<ge> patience self1
             then self1\<lparr>early_stop := True, epoch_stop := epoch - patience self1\<rparr>
             else self1)
          else self\<lparr>best_score := Some score, best_model_state := Some (state_dict model),
                    counter := 0\<rparr>)"


text \<open>
  A sequence of calls of the stopper: each with the validation loss, the module object
  passed, and the epoch number.
\<close>

fun observe_all ::
  "(rat \<Rightarrow> rat) \<Rightarrow> early_stopping \<Rightarrow> (rat \<times> ref \<times> int) list \<Rightarrow> early_stopping" where
  "observe_all rnd self [] = self"
| "observe_all rnd self ((val_loss, model, epoch) # rest) =
     observe_all rnd (es_call rnd self val_loss model epoch) rest"

text \<open>
  A training driver that trains one module object in place: in each epoch the training
  pass leaves the module with new parameters, then the stopper is called with the
  validation loss and that same module.
\<close>

fun train_and_observe ::
  "(rat \<Rightarrow> rat) \<Rightarrow> ref \<Rightarrow> ('img, 'p) store \<Rightarrow> early_stopping \<Rightarrow> ('p \<times> rat \<times> int) list \<Rightarrow>
   ('img, 'p) store \<times> early_stopping" where
  "train_and_observe rnd model st self [] = (st, self)"
| "train_and_observe rnd model st self ((p, val_loss, epoch) # rest) =
     train_and_observe rnd model (train_in_place st model p)
       (es_call rnd self val_loss model epoch) rest"

section \<open>Tensor primitives used by the passes\<close>

fun argmax_from :: "fl \<Rightarrow> nat \<Rightarrow> nat \<Rightarrow> fl list \<Rightarrow> nat" where
  "argmax_from best bi i [] = bi"
| "argmax_from best bi i (x # xs) =
     (if fl_gt x best then argmax_from x i (Suc i) xs else argmax_from best bi (Suc i) xs)"

definition argmax_row :: "fl list \<Rightarrow> error + int" where
  \<comment> \<open>\<^verbatim>\<open>torch.argmax\<close> along a row: the first maximal index; an empty row raises.\<close>
  "argmax_row r = (case r of [] \<Rightarrow> Inl IndexError | x # xs \<Rightarrow> Inr (int (argmax_from x 0 1 xs)))"

fun collect :: "(error + 'a) list \<Rightarrow> error + 'a list" where
  "collect [] = Inr []"
| "collect (r # rs) =
     (case r of Inl e \<Rightarrow> Inl e
      | Inr x \<Rightarrow> (case collect rs of Inl e \<Rightarrow> Inl e | Inr xs \<Rightarrow> Inr (x # xs)))"

definition argmax_dim1 :: "tensor \<Rightarrow> error + int list" where
  \<comment> \<open>\<^verbatim>\<open>torch.argmax(t, dim=1)\<close>\<close>
  "argmax_dim1 t = collect (map argmax_row t)"

definition count_eq :: "int list \<Rightarrow> int list \<Rightarrow> int" where
  "count_eq a b = int (length (filter (\<lambda>(x, y). x = y) (zip a b)))"

definition eq_sum :: "int list \<Rightarrow> int list \<Rightarrow> error + int" where
  \<comment> \<open>\<^verbatim>\<open>a.eq(b).sum().item()\<close> on 1-D tensors. PyTorch broadcasts: equal sizes compare
      elementwise, a size-1 operand is compared with every element of the other, any
      other size mismatch raises.\<close>
  "eq_sum a b =
     (if length a = length b then Inr (count_eq a b)
      else if length a = 1 then Inr (count_eq (replicate (length b) (hd a)) b)
      else if length b = 1 then Inr (count_eq a (replicate (length a) (hd b)))
      else Inl RuntimeError)"

definition eq_view_sum :: "int list \<Rightarrow> int list \<Rightarrow> error + int" where
  \<comment> \<open>\<^verbatim>\<open>preds.eq(label.view_as(preds)).sum().item()\<close>: \<^verbatim>\<open>view_as\<close> raises unless the
      label tensor has as many elements as \<^verbatim>\<open>preds\<close>.\<close>
  "eq_view_sum preds lbl =
     (if length lbl = length preds then Inr (count_eq preds lbl) else Inl RuntimeError)"

definition py_div :: "rat \<Rightarrow> rat \<Rightarrow> error + rat" where
  \<comment> \<open>Python's true division\<close>
  "py_div a b = (if b = 0 then Inl ZeroDivisionError else Inr (a / b))"

section \<open>Ensemble inference\<close>

datatype ('img, 'p) models_arg = Single "('img, 'p) module" | Many "('img, 'p) module list"

definition ensure_model_list :: "('img, 'p) models_arg \<Rightarrow> ('img, 'p) module list" where
  "ensure_model_list models = (case models of Many ms \<Rightarrow> ms | Single m \<Rightarrow> [m])"

definition tensor_add :: "tensor \<Rightarrow> tensor \<Rightarrow> tensor" where
  "tensor_add a b = map2 (map2 fl_add) a b"

definition tensor_div :: "tensor \<Rightarrow> nat \<Rightarrow> tensor" where
  "tensor_div a n = map (map (\<lambda>x. fl_div_count x n)) a"

definition shape :: "tensor \<Rightarrow> nat list" where
  "shape t = map length t"

definition stack_mean :: "tensor list \<Rightarrow> error + tensor" where
  \<comment> \<open>\<^verbatim>\<open>torch.mean(torch.stack(ts), dim=0)\<close>: \<^verbatim>\<open>stack\<close> raises on an empty list and
      on tensors of different shapes; the mean is the float sum over the models divided
      by their number.\<close>
  "stack_mean ts =
     (case ts of
        [] \<Rightarrow> Inl RuntimeError
      | t # rest \<Rightarrow>
          if list_all (\<lambda>u. shape u = shape t) rest
          then Inr (tensor_div (foldl tensor_add t rest) (length ts))
          else Inl RuntimeError)"

definition get_models_predictions :: "('img, 'p) module list \<Rightarrow> 'img \<Rightarrow> error + tensor" where
  "get_models_predictions models input_tensor =
     (let logits = map (\<lambda>model. forward model input_tensor) models
      in stack_mean logits)"



section \<open>Per-class accumulator\<close>

record stats =
  correct_total :: int
  total_per_class :: "(int, int) dict"
  correct_per_class :: "(int, int) dict"
  wrong_predictions :: "(int, int list) dict"
  predicted_as_class :: "(int, int) dict"

definition initialize_per_class_dict :: stats where
  "initialize_per_class_dict =
     \<lparr>correct_total = 0, total_per_class = [], correct_per_class = [],
      wrong_predictions = [], predicted_as_class = []\<rparr>"

definition update_pair :: "stats \<Rightarrow> int \<times> int \<Rightarrow> stats" where
  \<comment> \<open>the body of the loop over \<^verbatim>\<open>zip(y_true, y_pred)\<close>\<close>
  "update_pair st p =
     (case p of (true_label, pred_label) \<Rightarrow>
        let st1 = st\<lparr>total_per_class := dd_incr (total_per_class st) true_label\<rparr>;
            st2 = st1\<lparr>predicted_as_class := dd_incr (predicted_as_class st1) pred_label\<rparr>
        in if true_label = pred_label
           then st2\<lparr>correct_per_class := dd_incr (correct_per_class st2) true_label\<rparr>
           else st2\<lparr>wrong_predictions :=
                       dd_append (wrong_predictions st2) true_label pred_label\<rparr>)"

definition update_per_class_dict :: "stats \<Rightarrow> int list \<Rightarrow> int list \<Rightarrow> error + stats" where
  \<comment> \<open>\<^verbatim>\<open>_update_per_class_dict(stats, y_pred, y_true)\<close>; \<^verbatim>\<open>zip\<close> stops at the
      shorter sequence.\<close>
  "update_per_class_dict st y_pred y_true =
     (case eq_sum y_pred y_true of
        Inl e \<Rightarrow> Inl e
      | Inr c \<Rightarrow>
          Inr (foldl update_pair (st\<lparr>correct_total := correct_total st + c\<rparr>)
                 (zip y_true y_pred)))"

text \<open>A pass: one update per batch, each batch a pair \<open>(y_pred, y_true)\<close>.\<close>

fun update_all :: "stats \<Rightarrow> (int list \<times> int list) list \<Rightarrow> error + stats" where
  "update_all st [] = Inr st"
| "update_all st ((y_pred, y_true) # rest) =
     (case update_per_class_dict st y_pred y_true of
        Inl e \<Rightarrow> Inl e
      | Inr st' \<Rightarrow> update_all st' rest)"

definition wrong_total :: "stats \<Rightarrow> int" where
  \<comment> \<open>\<^verbatim>\<open>sum(len(v) for v in wrong_predictions.values())\<close>\<close>
  "wrong_total st = sum_list (map (\<lambda>(k, v). int (length v)) (wrong_predictions st))"

section \<open>Metrics\<close>

datatype pyval = Num rat | ClassDict "(int, rat) dict" | Labels "int list"

type_synonym metrics = "(string, pyval) dict"

definition class_tp :: "(int, int) dict \<Rightarrow> int \<Rightarrow> int" where
  "class_tp cpc i = dict_get cpc i 0"

definition class_fn :: "(int, int list) dict \<Rightarrow> int \<Rightarrow> int" where
  "class_fn wp i = int (length (dict_get wp i []))"

definition class_fp :: "(int, int) dict \<Rightarrow> (int, int) dict \<Rightarrow> int \<Rightarrow> int" where
  "class_fp cpc pac i = dict_get pac i 0 - class_tp cpc i"

definition class_support :: "(int, int) dict \<Rightarrow> int \<Rightarrow> int" where
  "class_support tpc i = dict_get tpc i 0"

definition class_precision :: "(int, int) dict \<Rightarrow> (int, int) dict \<Rightarrow> int \<Rightarrow> rat" where
  "class_precision cpc pac i =
     (let tp = class_tp cpc i; fp = class_fp cpc pac i
      in if tp + fp > 0 then of_int tp / of_int (tp + fp) else 0)"

definition class_recall :: "(int, int) dict \<Rightarrow> (int, int list) dict \<Rightarrow> int \<Rightarrow> rat" where
  "class_recall cpc wp i =
     (let tp = class_tp cpc i; fn = class_fn wp i
      in if tp + fn > 0 then of_int tp / of_int (tp + fn) else 0)"

definition class_f1 ::
  "(int, int) dict \<Rightarrow> (int, int list) dict \<Rightarrow> (int, int) dict \<Rightarrow> int \<Rightarrow> rat" where
  "class_f1 cpc wp pac i =
     (let precision = class_precision cpc pac i; recall = class_recall cpc wp i
      in if precision + recall > 0 then 2 * precision * recall / (precision + recall) else 0)"

record loop_acc =
  precision_dict :: "(int, rat) dict"
  recall_dict :: "(int, rat) dict"
  f1_dict :: "(int, rat) dict"
  macro_f1_sum :: rat
  weighted_f1_sum :: rat

definition loop_init :: loop_acc where
  "loop_init = \<lparr>precision_dict = [], recall_dict = [], f1_dict = [],
                macro_f1_sum = 0, weighted_f1_sum = 0\<rparr>"

definition class_step ::
  "(int, int) dict \<Rightarrow> (int, int) dict \<Rightarrow> (int, int list) dict \<Rightarrow> (int, int) dict \<Rightarrow>
   loop_acc \<Rightarrow> int \<Rightarrow> loop_acc" where
  \<comment> \<open>the body of \<^verbatim>\<open>for i in range(num_classes)\<close>\<close>
  "class_step cpc tpc wp pac acc i =
     (let support = class_support tpc i;
          precision = class_precision cpc pac i;
          recall = class_recall cpc wp i;
          f1_score = class_f1 cpc wp pac i
      in \<lparr>precision_dict = AList.update i precision (precision_dict acc),
          recall_dict = AList.update i recall (recall_dict acc),
          f1_dict = AList.update i f1_score (f1_dict acc),
          macro_f1_sum = macro_f1_sum acc + f1_score,
          weighted_f1_sum = weighted_f1_sum acc + f1_score * of_int support\<rparr>)"

definition py_range :: "int \<Rightarrow> int list" where
  \<comment> \<open>\<^verbatim>\<open>range(n)\<close>, empty for \<open>n \<le> 0\<close>\<close>
  "py_range n = map int [0..<nat n]"

text \<open>
  \<^verbatim>\<open>precision_score\<close> and \<^verbatim>\<open>recall_score\<close> come from scikit-learn; they are
  parameters \<open>ps\<close> and \<open>rs\<close> of the model, and may raise.
\<close>

type_synonym score_fn = "int list \<Rightarrow> int list \<Rightarrow> error + rat"

definition compute_classification_metrics ::
  "score_fn \<Rightarrow> score_fn \<Rightarrow> (int, int) dict \<Rightarrow> (int, int) dict \<Rightarrow> (int, int list) dict \<Rightarrow>
   (int, int) dict \<Rightarrow> int list \<Rightarrow> int list \<Rightarrow> int \<Rightarrow> error + metrics" where
  "compute_classification_metrics ps rs cpc tpc wp pac y_true y_pred n =
     (let total_samples = dict_values_sum tpc;
          acc = foldl (class_step cpc tpc wp pac) loop_init (py_range n)
      in case py_div (macro_f1_sum acc) (of_int n) of
           Inl e \<Rightarrow> Inl e
         | Inr macro_f1 \<Rightarrow>
             let weighted_f1 = (if total_samples > 0
                                then weighted_f1_sum acc / of_int total_samples else 0)
             in case ps y_true y_pred of
                  Inl e \<Rightarrow> Inl e
                | Inr macro_precision \<Rightarrow>
                    (case rs y_true y_pred of
                       Inl e \<Rightarrow> Inl e
                     | Inr macro_recall \<Rightarrow>
                         Inr [(''per_class_precision'', ClassDict (precision_dict acc)),
                              (''per_class_recall'', ClassDict (recall_dict acc)),
                              (''per_class_f1'', ClassDict (f1_dict acc)),
                              (''macro_precision'', Num macro_precision),
                              (''macro_recall'', Num macro_recall),
                              (''macro_f1'', Num macro_f1),
                              (''weighted_f1'', Num weighted_f1)]))"

definition finalize_metrics ::
  "score_fn \<Rightarrow> score_fn \<Rightarrow> stats \<Rightarrow> int list \<Rightarrow> int list \<Rightarrow> 'img data_loader \<Rightarrow> int \<Rightarrow>
   error + metrics" where
  \<comment> \<open>\<^verbatim>\<open>_finalize_metrics\<close> with \<^verbatim>\<open>compute_fn = compute_classification_metrics\<close>\<close>
  "finalize_metrics ps rs st y_true_all y_pred_all test_loader n =
     (case py_div (of_int (correct_total st)) (of_int (dataset_len test_loader)) of
        Inl e \<Rightarrow> Inl e
      | Inr q \<Rightarrow>
          let overall_accuracy = q * 100 in
          case compute_classification_metrics ps rs (correct_per_class st) (total_per_class st)
                 (wrong_predictions st) (predicted_as_class st) y_true_all y_pred_all n of
            Inl e \<Rightarrow> Inl e
          | Inr m \<Rightarrow>
              Inr (AList.update ''predicted_labels'' (Labels y_pred_all)
                    (AList.update ''correct_labels'' (Labels y_true_all)
                      (AList.update ''overall_accuracy'' (Num overall_accuracy) m))))"

section \<open>Training, validation and test passes\<close>

text \<open>
  The loss function and the optimizer are parameters: \<open>lf\<close> maps scores and labels to the
  batch loss, \<open>opt\<close> stands for \<^verbatim>\<open>zero_grad\<close>, \<^verbatim>\<open>backward\<close> and \<^verbatim>\<open>step\<close> on one
  batch and returns the updated model. Printing is left out, except that the progress line
  of the training loop divides by the dataset size.
\<close>

fun train_batches ::
  "(tensor \<Rightarrow> int list \<Rightarrow> rat) \<Rightarrow> (('img, 'p) module \<Rightarrow> 'img sample \<Rightarrow> ('img, 'p) module) \<Rightarrow>
   bool \<Rightarrow> int \<Rightarrow> int \<Rightarrow> nat \<Rightarrow> 'img sample list \<Rightarrow> ('img, 'p) module \<Rightarrow> rat list \<Rightarrow> int \<Rightarrow>
   error + (('img, 'p) module \<times> rat list \<times> int)" where
  "train_batches lf opt save verbose dlen batch_idx [] model losses corrects =
     Inr (model, losses, corrects)"
| "train_batches lf opt save verbose dlen batch_idx (s # rest) model losses corrects =
     (let y_pred = forward model (image s);
          loss = lf y_pred (label s);
          losses' = (if save then losses @ [loss] else losses);
          model' = opt model s
      in case argmax_dim1 y_pred of
           Inl e \<Rightarrow> Inl e
         | Inr preds \<Rightarrow>
             (case eq_view_sum preds (label s) of
                Inl e \<Rightarrow> Inl e
              | Inr c \<Rightarrow>
                  if verbose \<ge> 1 \<and> int batch_idx mod 10 = 0 \<and> dlen = 0
                  then Inl ZeroDivisionError
                  else train_batches lf opt save verbose dlen (Suc batch_idx) rest
                         model' losses' (corrects + c)))"

definition train_model ::
  "('img, 'p) module \<Rightarrow> 'img data_loader \<Rightarrow> (tensor \<Rightarrow> int list \<Rightarrow> rat) \<Rightarrow>
   (('img, 'p) module \<Rightarrow> 'img sample \<Rightarrow> ('img, 'p) module) \<Rightarrow> int \<Rightarrow> bool \<Rightarrow> int \<Rightarrow>
   error + ((rat \<times> rat) \<times> ('img, 'p) module)" where
  "train_model model train_loader lf opt epoch save verbose =
     (case train_batches lf opt save verbose (dataset_len train_loader) 0
             (batches train_loader) model [] 0 of
        Inl e \<Rightarrow> Inl e
      | Inr (model', losses, corrects) \<Rightarrow>
          (case py_div (sum_list losses) (of_nat (length losses)) of
             Inl e \<Rightarrow> Inl e
           | Inr avg_loss \<Rightarrow>
               (case py_div (100 * of_int corrects) (of_int (dataset_len train_loader)) of
                  Inl e \<Rightarrow> Inl e
                | Inr overall_accuracy \<Rightarrow>
                    if save then Inr ((avg_loss, overall_accuracy), model')
                    else Inr ((0, 0), model'))))"

text \<open>
  In the validation loop \<^verbatim>\<open>avg_loss\<close> and \<^verbatim>\<open>accuracy\<close> are assigned inside the
  loop body; the last argument is their binding, \<open>None\<close> while they are unbound.
\<close>

fun validate_batches ::
  "(tensor \<Rightarrow> int list \<Rightarrow> rat) \<Rightarrow> bool \<Rightarrow> int \<Rightarrow> 'img sample list \<Rightarrow> ('img, 'p) module \<Rightarrow>
   rat list \<Rightarrow> int \<Rightarrow> (rat \<times> rat) option \<Rightarrow> error + (rat \<times> rat) option" where
  "validate_batches lf save dlen [] model val_losses corrects bound = Inr bound"
| "validate_batches lf save dlen (s # rest) model val_losses corrects bound =
     (let y_pred = forward model (image s);
          loss = lf y_pred (label s);
          val_losses' = (if save then val_losses @ [loss] else val_losses)
      in case argmax_dim1 y_pred of
           Inl e \<Rightarrow> Inl e
         | Inr pred \<Rightarrow>
             (case eq_view_sum pred (label s) of
                Inl e \<Rightarrow> Inl e
              | Inr c \<Rightarrow>
                  (case py_div (sum_list val_losses') (of_nat (length val_losses')) of
                     Inl e \<Rightarrow> Inl e
                   | Inr avg_loss \<Rightarrow>
                       (case py_div (100 * of_int (corrects + c)) (of_int dlen) of
                          Inl e \<Rightarrow> Inl e
                        | Inr accuracy \<Rightarrow>
                            validate_batches lf save dlen rest model val_losses'
                              (corrects + c) (Some (avg_loss, accuracy))))))"

definition validate_model ::
  "('img, 'p) module \<Rightarrow> 'img data_loader \<Rightarrow> (tensor \<Rightarrow> int list \<Rightarrow> rat) \<Rightarrow> bool \<Rightarrow> bool \<Rightarrow>
   error + (rat \<times> rat)" where
  "validate_model model valid_loader lf save verbose =
     (case validate_batches lf save (dataset_len valid_loader) (batches valid_loader)
             model [] 0 None of
        Inl e \<Rightarrow> Inl e
      | Inr bound \<Rightarrow>
          if verbose \<and> bound = None then Inl UnboundLocalError
          else if save then (case bound of None \<Rightarrow> Inl UnboundLocalError | Some r \<Rightarrow> Inr r)
          else Inr (0, 0))"

text \<open>
  In the test loop \<^verbatim>\<open>metrics\<close> is assigned at the end of the loop body; the last
  argument is its binding.
\<close>

fun test_batches ::
  "score_fn \<Rightarrow> score_fn \<Rightarrow> ('img, 'p) module list \<Rightarrow> 'img data_loader \<Rightarrow> int \<Rightarrow>
   'img sample list \<Rightarrow> stats \<Rightarrow> int list \<Rightarrow> int list \<Rightarrow> metrics option \<Rightarrow>
   error + (stats \<times> int list \<times> int list \<times> metrics option)" where
  "test_batches ps rs models test_loader n [] st y_true_all y_pred_all bound =
     Inr (st, y_true_all, y_pred_all, bound)"
| "test_batches ps rs models test_loader n (s # rest) st y_true_all y_pred_all bound =
     (case get_models_predictions models (image s) of
        Inl e \<Rightarrow> Inl e
      | Inr logits \<Rightarrow>
          (case argmax_dim1 logits of
             Inl e \<Rightarrow> Inl e
           | Inr y_pred_test \<Rightarrow>
               (case update_per_class_dict st y_pred_test (label s) of
                  Inl e \<Rightarrow> Inl e
                | Inr st' \<Rightarrow>
                    (case finalize_metrics ps rs st' (y_true_all @ label s)
                            (y_pred_all @ y_pred_test) test_loader n of
                       Inl e \<Rightarrow> Inl e
                     | Inr m \<Rightarrow>
                         test_batches ps rs models test_loader n rest st'
                           (y_true_all @ label s) (y_pred_all @ y_pred_test) (Some m)))))"

definition test_model ::
  "score_fn \<Rightarrow> score_fn \<Rightarrow> ('img, 'p) models_arg \<Rightarrow> 'img data_loader \<Rightarrow> bool \<Rightarrow>
   error + metrics" where
  "test_model ps rs models test_loader verbose =
     (case ensure_model_list models of
        [] \<Rightarrow> Inl IndexError
      | m0 # ms \<Rightarrow>
          (case test_batches ps rs (m0 # ms) test_loader (num_classes m0)
                  (batches test_loader) initialize_per_class_dict [] [] None of
             Inl e \<Rightarrow> Inl e
           | Inr (st, y_true_all, y_pred_all, bound) \<Rightarrow>
               if verbose \<and> bound = None then Inl UnboundLocalError
               else (case bound of None \<Rightarrow> Inl UnboundLocalError | Some m \<Rightarrow> Inr m)))"

text \<open>The labels the ensemble predicts for one batch.\<close>

definition predict_batch :: "('img, 'p) module list \<Rightarrow> 'img \<Rightarrow> error + int list" where
  "predict_batch models x =
     (case get_models_predictions models x of Inl e \<Rightarrow> Inl e | Inr logits \<Rightarrow> argmax_dim1 logits)"

section \<open>Concrete collaborators for evaluation\<close>

text \<open>
  A model with parameters \<open>p\<close> whose forward pass returns the scores \<open>t\<close> for every
  input, a loss function and scikit-learn scores that return a constant, and an optimizer
  that leaves the model as it is.
\<close>

definition const_model :: "nat \<Rightarrow> tensor \<Rightarrow> int \<Rightarrow> (unit, nat) module" where
  "const_model p t n = \<lparr>params = p, forward_fn = (\<lambda>_ _. t), num_classes = n\<rparr>"

definition const_loss :: "rat \<Rightarrow> tensor \<Rightarrow> int list \<Rightarrow> rat" where
  "const_loss c y_pred lbl = c"

definition const_score :: "rat \<Rightarrow> score_fn" where
  "const_score c y_true y_pred = Inr c"

definition no_opt :: "(unit, nat) module \<Rightarrow> unit sample \<Rightarrow> (unit, nat) module" where
  "no_opt model s = model"

definition one_batch :: "int list \<Rightarrow> unit sample" where
  "one_batch lbl = \<lparr>image = (), label = lbl\<rparr>"

definition mk_loader :: "unit sample list \<Rightarrow> int \<Rightarrow> unit data_loader" where
  "mk_loader bs n = \<lparr>batches = bs, dataset_len = n\<rparr>"

text \<open>
  A rounding that changes nothing, and a store in which the module object \<open>r\<close> has the
  parameters \<open>r\<close>.
\<close>

definition exact_round :: "rat \<Rightarrow> rat" where
  "exact_round q = q"

definition numbered_store :: "(unit, nat) store" where
  "numbered_store r = const_model r [] 7"

section \<open>Invariants of the accumulator\<close>

text \<open>
  \<open>class_counts_ok\<close>: in every class the true positives are non-negative, at most the
  number of times the class was predicted, and together with the misclassifications of
  the class they make up its support. \<open>slack\<close> is the difference between the two sides
  of the count identity.
\<close>

definition class_counts_ok :: "stats \<Rightarrow> bool" where
  "class_counts_ok st \<longleftrightarrow>
     (\<forall>i. 0 \<le> dict_get (correct_per_class st) i 0 \<and>
          dict_get (correct_per_class st) i 0 \<le> dict_get (predicted_as_class st) i 0 \<and>
          dict_get (correct_per_class st) i 0 + int (length (dict_get (wrong_predictions st) i []))
            = dict_get (total_per_class st) i 0)"

definition slack :: "stats \<Rightarrow> int" where
  "slack st = dict_values_sum (total_per_class st) - correct_total st - wrong_total st"

section \<open>The count identity\<close>

lemma dict_get_update:
  "dict_get (AList.update k v d) j dflt = (if j = k then v else dict_get d j dflt)"
  by (simp add: dict_get_def update_conv')

lemma dict_get_incr:
  "dict_get (dd_incr d k) j 0 = (if j = k then dict_get d k 0 + 1 else dict_get d j 0)"
  by (simp add: dd_incr_def dict_get_update)

lemma dict_get_append:
  "dict_get (dd_append d k v) j [] = (if j = k then dict_get d k [] @ [v] else dict_get d j [])"
  by (simp add: dd_append_def dict_get_update)

lemma sum_update:
  fixes f :: "'v \<Rightarrow> int"
  assumes "f dflt = 0"
  shows "sum_list (map (\<lambda>(k, v). f v) (AList.update k v d))
           = sum_list (map (\<lambda>(k, v). f v) d) - f (dict_get d k dflt) + f v"
  using assms by (induction d) (auto simp: dict_get_def)

lemma values_sum_incr: "dict_values_sum (dd_incr d k) = dict_values_sum d + 1"
proof -
  have "dict_values_sum e = sum_list (map (\<lambda>(k, v). v) e)" for e :: "(int, int) dict"
    by (simp add: dict_values_sum_def case_prod_unfold)
  then show ?thesis
    using sum_update [of "\<lambda>v. v" 0 k "dict_get d k 0 + 1" d]
    by (simp add: dd_incr_def)
qed

lemma wrong_sum_append:
  "sum_list (map (\<lambda>(k, v). int (length v)) (dd_append d k x))
     = sum_list (map (\<lambda>(k, v). int (length v)) d) + 1"
  using sum_update [of "\<lambda>v. int (length v)" "[]" k "dict_get d k [] @ [x]" d]
  by (simp add: dd_append_def)

lemma slack_update_pair:
  "slack (update_pair st (t, p)) = slack st + (if t = p then 1 else 0)"
  by (simp add: slack_def update_pair_def Let_def wrong_total_def values_sum_incr wrong_sum_append)

lemma slack_foldl:
  "slack (foldl update_pair st ps) = slack st + int (length (filter (\<lambda>(t, p). t = p) ps))"
proof (induction ps arbitrary: st)
  case Nil
  then show ?case by simp
next
  case (Cons a ps)
  obtain t p where a: "a = (t, p)" by (cases a) auto
  show ?case using Cons.IH [of "update_pair st (t, p)"] a
    by (simp add: slack_update_pair)
qed

lemma count_eq_sym: "count_eq a b = count_eq b a"
proof -
  have "length (filter (\<lambda>(x, y). x = y) (zip a b)) = length (filter (\<lambda>(x, y). x = y) (zip b a))"
    by (induction a b rule: list_induct2') auto
  then show ?thesis by (simp add: count_eq_def)
qed

lemma slack_update:
  assumes "length y_pred = length y_true"
  shows "\<exists>st'. update_per_class_dict st y_pred y_true = Inr st' \<and> slack st' = slack st"
proof -
  have c: "eq_sum y_pred y_true = Inr (count_eq y_true y_pred)"
    using assms by (simp add: eq_sum_def count_eq_sym)
  have "slack (st\<lparr>correct_total := correct_total st + count_eq y_true y_pred\<rparr>)
          = slack st - count_eq y_true y_pred"
    by (simp add: slack_def wrong_total_def)
  then show ?thesis
    using c by (simp add: update_per_class_dict_def slack_foldl count_eq_def)
qed

lemma slack_update_all:
  assumes "list_all (\<lambda>(y_pred, y_true). length y_pred = length y_true) bs"
  shows "\<exists>st'. update_all st bs = Inr st' \<and> slack st' = slack st"
  using assms
proof (induction bs arbitrary: st)
  case Nil
  then show ?case by simp
next
  case (Cons b bs)
  obtain yp yt where b: "b = (yp, yt)" by (cases b) auto
  with Cons.prems have len: "length yp = length yt"
    and rest: "list_all (\<lambda>(y_pred, y_true). length y_pred = length y_true) bs"
    by auto
  obtain st1 where st1: "update_per_class_dict st yp yt = Inr st1" "slack st1 = slack st"
    using slack_update [OF len] by blast
  obtain st2 where "update_all st1 bs = Inr st2" "slack st2 = slack st1"
    using Cons.IH [OF rest] by blast
  with st1 b show ?case by simp
qed

text \<open>
  C3: every state reached from the empty accumulator by updates with equal-length
  label sequences exists (no update raises) and satisfies
  \<^verbatim>\<open>sum(total_per_class.values()) == correct_total + sum(len(v) for v in wrong_predictions.values())\<close>.
\<close>

theorem confusion_counts_invariant:
  assumes "list_all (\<lambda>(y_pred, y_true). length y_pred = length y_true) bs"
  shows "\<exists>st. update_all initialize_per_class_dict bs = Inr st \<and>
              dict_values_sum (total_per_class st) = correct_total st + wrong_total st"
proof -
  have "slack initialize_per_class_dict = 0"
    by (simp add: slack_def initialize_per_class_dict_def dict_values_sum_def wrong_total_def)
  then show ?thesis
    using slack_update_all [OF assms, of initialize_per_class_dict]
    by (auto simp: slack_def)
qed

theorem confusion_counts_invariant_witness:
  "list_all (\<lambda>(y_pred, y_true). length y_pred = length y_true)
     [([0, 1, 1], [0, 0, 1]), ([2, 0, 2], [2, 2, 2 :: int])] \<and>
   (\<exists>st. update_all initialize_per_class_dict [([0, 1, 1], [0, 0, 1]), ([2, 0, 2], [2, 2, 2])] = Inr st \<and>
         correct_total st = 4 \<and> dict_values_sum (total_per_class st) = 6 \<and> wrong_total st = 2 \<and>
         dict_values_sum (total_per_class st) = correct_total st + wrong_total st)"
  using confusion_counts_invariant [of "[([0, 1, 1], [0, 0, 1]), ([2, 0, 2], [2, 2, 2])]"]
  by (simp add: update_per_class_dict_def eq_sum_def count_eq_def update_pair_def
      initialize_per_class_dict_def dd_incr_def dd_append_def dict_get_def
      dict_values_sum_def wrong_total_def)

subsection \<open>Per-class counts\<close>

lemma class_counts_ok_update_pair:
  assumes "class_counts_ok st"
  shows "class_counts_ok (update_pair st tp)"
proof -
  obtain t p where tp: "tp = (t, p)" by (cases tp) auto
  have h: "0 \<le> dict_get (correct_per_class st) j 0 \<and>
           dict_get (correct_per_class st) j 0 \<le> dict_get (predicted_as_class st) j 0 \<and>
           dict_get (correct_per_class st) j 0 + int (length (dict_get (wrong_predictions st) j []))
             = dict_get (total_per_class st) j 0" for j
    using assms unfolding class_counts_ok_def by blast
  show ?thesis
    unfolding class_counts_ok_def
  proof (intro allI)
    fix i
    show "0 \<le> dict_get (correct_per_class (update_pair st tp)) i 0 \<and>
          dict_get (correct_per_class (update_pair st tp)) i 0
            \<le> dict_get (predicted_as_class (update_pair st tp)) i 0 \<and>
          dict_get (correct_per_class (update_pair st tp)) i 0
            + int (length (dict_get (wrong_predictions (update_pair st tp)) i []))
            = dict_get (total_per_class (update_pair st tp)) i 0"
      using h [of i] h [of t] h [of p]
      by (simp add: tp update_pair_def Let_def dict_get_incr dict_get_append)
  qed
qed

lemma class_counts_ok_foldl:
  "class_counts_ok st \<Longrightarrow> class_counts_ok (foldl update_pair st ps)"
  by (induction ps arbitrary: st) (simp_all add: class_counts_ok_update_pair)

lemma class_counts_ok_update:
  "class_counts_ok st \<Longrightarrow> update_per_class_dict st yp yt = Inr st' \<Longrightarrow> class_counts_ok st'"
proof -
  assume ok: "class_counts_ok st" and u: "update_per_class_dict st yp yt = Inr st'"
  from u obtain c where "st' = foldl update_pair (st\<lparr>correct_total := correct_total st + c\<rparr>) (zip yt yp)"
    by (auto simp: update_per_class_dict_def split: sum.splits)
  moreover have "class_counts_ok (st\<lparr>correct_total := correct_total st + c\<rparr>)"
    using ok by (simp add: class_counts_ok_def)
  ultimately show ?thesis by (simp add: class_counts_ok_foldl)
qed

lemma class_counts_ok_update_all:
  "class_counts_ok st \<Longrightarrow> update_all st bs = Inr st' \<Longrightarrow> class_counts_ok st'"
proof (induction bs arbitrary: st)
  case Nil
  then show ?case by simp
next
  case (Cons b bs)
  obtain yp yt where b: "b = (yp, yt)" by (cases b) auto
  from Cons.prems(2) b obtain st1 where s1: "update_per_class_dict st yp yt = Inr st1"
    and s2: "update_all st1 bs = Inr st'"
    by (auto split: sum.splits)
  from class_counts_ok_update [OF Cons.prems(1) s1] Cons.IH s2 show ?case by blast
qed

lemma class_counts_ok_init: "class_counts_ok initialize_per_class_dict"
  by (simp add: class_counts_ok_def initialize_per_class_dict_def dict_get_def)

section \<open>Training and validation passes\<close>

lemma train_batches_no_save:
  "train_batches lf opt False verbose dlen i bs model losses corrects = Inr (model', losses', corrects')
   \<Longrightarrow> losses' = losses"
proof (induction bs arbitrary: i model corrects)
  case Nil
  then show ?case by simp
next
  case (Cons s rest)
  then show ?case
    by (auto simp: Let_def split: sum.splits if_splits)
qed

text \<open>
  C1: with \<^verbatim>\<open>save=False\<close> the training pass never returns \<open>(0.0, 0.0)\<close>: the list of
  losses stays empty and \<^verbatim>\<open>sum(losses) / len(losses)\<close> raises on every input, although the
  docstring promises \<open>(0, 0)\<close>.
\<close>

theorem train_model_save_False_raises:
  "\<exists>e. train_model model train_loader lf opt epoch False verbose = Inl e"
proof (cases "train_batches lf opt False verbose (dataset_len train_loader) 0
                (batches train_loader) model [] 0")
  case (Inl e)
  then show ?thesis by (simp add: train_model_def)
next
  case (Inr r)
  obtain model' losses corrects where r: "r = (model', losses, corrects)"
    by (cases r) auto
  with Inr have "losses = []" using train_batches_no_save by blast
  with Inr r show ?thesis by (simp add: train_model_def py_div_def)
qed

lemma train_model_save_False_example:
  "train_model (const_model 0 [[Finite (1/10), Finite (9/10)]] 2) (mk_loader [one_batch [1]] 1)
     (const_loss (1/2)) no_opt 0 False 0 = Inl ZeroDivisionError"
  by (simp add: train_model_def const_model_def mk_loader_def one_batch_def const_loss_def
      no_opt_def forward_def argmax_dim1_def argmax_row_def eq_view_sum_def count_eq_def py_div_def)

lemma validate_model_save_False_example:
  "validate_model (const_model 0 [[Finite (1/10), Finite (9/10)]] 2) (mk_loader [one_batch [1]] 1)
     (const_loss (1/2)) False False = Inl ZeroDivisionError"
  by (simp add: validate_model_def const_model_def mk_loader_def one_batch_def const_loss_def
      forward_def argmax_dim1_def argmax_row_def eq_view_sum_def count_eq_def py_div_def)

text \<open>
  The validation pass with \<^verbatim>\<open>save=False\<close> raises on every non-empty loader and returns
  \<open>(0, 0)\<close> only when there is no batch; with \<^verbatim>\<open>save=True\<close> a training pass that
  returns gives the mean of one loss per batch and the accuracy in percent.
\<close>

lemma validate_model_save_False_raises:
  assumes "batches valid_loader \<noteq> []"
  shows "\<exists>e. validate_model model valid_loader lf False verbose = Inl e"
proof -
  from assms obtain s rest where b: "batches valid_loader = s # rest"
    by (cases "batches valid_loader") auto
  have "\<exists>e. validate_batches lf False (dataset_len valid_loader) (s # rest) model [] 0 None = Inl e"
    by (simp add: py_div_def split: sum.splits)
  then show ?thesis using b by (auto simp: validate_model_def)
qed

lemma validate_model_save_False_empty:
  "validate_model model (mk_loader [] n) lf False False = Inr (0, 0)"
  by (simp add: validate_model_def mk_loader_def)

lemma train_batches_save_length:
  "train_batches lf opt True verbose dlen i bs model losses corrects = Inr (model', losses', corrects')
   \<Longrightarrow> length losses' = length losses + length bs"
proof (induction bs arbitrary: i model losses corrects)
  case Nil
  then show ?case by simp
next
  case (Cons s rest)
  then show ?case
    by (fastforce simp: Let_def split: sum.splits if_splits)
qed

lemma train_model_save_True_result:
  assumes "train_model model train_loader lf opt epoch True verbose = Inr ((avg, acc), model')"
  shows "\<exists>losses corrects.
           train_batches lf opt True verbose (dataset_len train_loader) 0 (batches train_loader)
             model [] 0 = Inr (model', losses, corrects) \<and>
           length losses = length (batches train_loader) \<and>
           avg = sum_list losses / of_nat (length losses) \<and>
           acc = 100 * of_int corrects / of_int (dataset_len train_loader)"
proof -
  from assms obtain losses corrects where
    t: "train_batches lf opt True verbose (dataset_len train_loader) 0 (batches train_loader)
          model [] 0 = Inr (model', losses, corrects)"
    and a: "py_div (sum_list losses) (of_nat (length losses)) = Inr avg"
    and c: "py_div (100 * of_int corrects) (of_int (dataset_len train_loader)) = Inr acc"
    by (auto simp: train_model_def split: sum.splits prod.splits)
  from train_batches_save_length [OF t] have "length losses = length (batches train_loader)"
    by simp
  moreover from a have "avg = sum_list losses / of_nat (length losses)"
    by (simp add: py_div_def split: if_splits)
  moreover from c have "acc = 100 * of_int corrects / of_int (dataset_len train_loader)"
    by (simp add: py_div_def split: if_splits)
  ultimately show ?thesis using t by blast
qed

section \<open>Ensemble of identical models\<close>











section \<open>The early-stopping scenario and the best snapshot\<close>

text \<open>
  C6 (as amended): with \<open>patience = 2\<close> and \<open>delta = 0\<close> and losses 1.0, 1.2, 1.3, 0.9 at
  epochs 0 to 3, the counter is 1 after epoch 1; after epoch 2 the counter is 2,
  \<open>early_stop\<close> is set, \<open>epoch_stop\<close> is 0 and the stopper holds the state dict it took
  from the model passed at epoch 0; the observation of epoch 3 is an improvement, so the
  stopper then holds the state dict it took from the model passed at epoch 3 and the
  counter is 0, while \<open>early_stop\<close> and \<open>epoch_stop\<close> stay as they are. Which parameter
  values a held state dict reads is not part of the statement.
\<close>

theorem early_stopper_scenario:
  assumes "rnd (- 1) = - 1"
  shows "(let es1 = es_call rnd (EarlyStopping 2 0) 1 m0 0;
              es2 = es_call rnd es1 (12/10) m1 1;
              es3 = es_call rnd es2 (13/10) m2 2;
              es4 = es_call rnd es3 (9/10) m3 3
          in counter es2 = 1 \<and> \<not> early_stop es2 \<and>
             counter es3 = 2 \<and> early_stop es3 \<and> epoch_stop es3 = 0 \<and>
             best_model_state es3 = Some (state_dict m0) \<and>
             best_model_state es4 = Some (state_dict m3) \<and> counter es4 = 0 \<and>
             early_stop es4 \<and> epoch_stop es4 = 0)"
  using assms by (simp add: es_call_def EarlyStopping_def Let_def)

theorem early_stopper_scenario_witness:
  "exact_round (- 1) = - 1 \<and>
   counter (es_call exact_round (es_call exact_round (EarlyStopping 2 0) 1 0 0) (12/10) 0 1) = 1 \<and>
   early_stop (es_call exact_round (es_call exact_round (es_call exact_round
      (EarlyStopping 2 0) 1 0 0) (12/10) 0 1) (13/10) 0 2) \<and>
   epoch_stop (es_call exact_round (es_call exact_round (es_call exact_round
      (EarlyStopping 2 0) 1 0 0) (12/10) 0 1) (13/10) 0 2) = 0"
  using early_stopper_scenario [of exact_round 0 0 0 0]
  by (simp add: exact_round_def Let_def)

text \<open>
  The scenario with a different module object at each epoch: after the four observations
  the stopper holds the state dict of the module of epoch 3, not that of epoch 0. The
  scenario up to the stop with one module object trained in place, its parameters being
  10, 11 and 12 at the three observations: the state dict taken at epoch 0 read 10 then,
  and at the stop the state dict the stopper holds reads 12, the parameters of epoch 2.
\<close>

theorem early_stopper_scenario_counterexample:
  "best_model_state
     (observe_all exact_round (EarlyStopping 2 0)
        [(1, 0, 0), (12/10, 1, 1), (13/10, 2, 2), (9/10, 3, 3)]) = Some (state_dict 3) \<and>
   best_model_state
     (observe_all exact_round (EarlyStopping 2 0)
        [(1, 0, 0), (12/10, 1, 1), (13/10, 2, 2), (9/10, 3, 3)]) \<noteq> Some (state_dict 0) \<and>
   read_view (train_in_place numbered_store 0 10) (state_dict 0) = 10 \<and>
   early_stop (snd (train_and_observe exact_round 0 numbered_store (EarlyStopping 2 0)
        [(10, 1, 0), (11, 12/10, 1), (12, 13/10, 2)])) \<and>
   map_option
     (read_view (fst (train_and_observe exact_round 0 numbered_store (EarlyStopping 2 0)
        [(10, 1, 0), (11, 12/10, 1), (12, 13/10, 2)])))
     (best_model_state (snd (train_and_observe exact_round 0 numbered_store (EarlyStopping 2 0)
        [(10, 1, 0), (11, 12/10, 1), (12, 13/10, 2)]))) = Some 12"
  by (simp add: es_call_def EarlyStopping_def Let_def state_dict_def exact_round_def
      train_in_place_def read_view_def numbered_store_def const_model_def)






section \<open>The test pass on an empty loader\<close>

text \<open>
  C10: for a loader that yields no batch the test pass returns no metrics mapping
  but raises (\<^verbatim>\<open>metrics\<close> is bound only inside the loop); hence a returned mapping
  comes from a pass over at least one batch.
\<close>

theorem test_model_empty_loader:
  assumes "batches test_loader = []"
  shows "test_model ps rs models test_loader verbose
           = Inl (if ensure_model_list models = [] then IndexError else UnboundLocalError) \<and>
         (\<forall>m. test_model ps rs models test_loader verbose \<noteq> Inr m)"
  using assms by (simp add: test_model_def split: list.splits)

theorem test_model_empty_loader_witness:
  "batches (mk_loader [] 0) = [] \<and>
   test_model (const_score 0) (const_score 0) (Single (const_model 0 [] 7)) (mk_loader [] 0) False
     = Inl UnboundLocalError"
  using test_model_empty_loader [of "mk_loader [] 0" "const_score 0" "const_score 0"
     "Single (const_model 0 [] 7)" False]
  by (simp add: mk_loader_def ensure_model_list_def)

section \<open>Accumulator updates with mismatched lengths\<close>

lemma count_eq_broadcast_left:
  "count_eq (replicate (length b) a) b = int (length (filter (\<lambda>t. t = a) b))"
proof -
  have "length (filter (\<lambda>(x, y). x = y) (zip (replicate (length b) a) b))
          = length (filter (\<lambda>t. t = a) b)"
    by (induction b) auto
  then show ?thesis by (simp add: count_eq_def)
qed

lemma count_eq_broadcast_right:
  "count_eq b (replicate (length b) a) = int (length (filter (\<lambda>t. t = a) b))"
  using count_eq_broadcast_left [of b a] by (simp add: count_eq_sym)

lemma zip_singleton_right: "zip xs [a] = map (\<lambda>t. (t, a)) (take 1 xs)"
  by (cases xs) simp_all

lemma zip_singleton_left: "zip [a] xs = map (\<lambda>t. (a, t)) (take 1 xs)"
  by (cases xs) simp_all

lemma length_one_hd: "length xs = 1 \<Longrightarrow> xs = [hd xs]"
  by (cases xs) simp_all

text \<open>
  C2 (as amended): for label sequences of different lengths the update raises exactly when
  neither sequence has length 1. When one of them has length 1 nothing is raised: the
  equality test broadcasts it, so \<open>correct_total\<close> grows by the number of elements of the
  other sequence that equal it, and \<^verbatim>\<open>zip\<close> stops at the shorter sequence, so the
  per-class counts are updated for its pair with the first element of the other sequence
  only, or not at all when the other sequence is empty.
\<close>

theorem update_length_mismatch:
  assumes "length y_pred \<noteq> length y_true"
  shows "update_per_class_dict st y_pred y_true =
     (if length y_pred = 1 then
        Inr (foldl update_pair
               (st\<lparr>correct_total :=
                     correct_total st + int (length (filter (\<lambda>t. t = hd y_pred) y_true))\<rparr>)
               (map (\<lambda>t. (t, hd y_pred)) (take 1 y_true)))
      else if length y_true = 1 then
        Inr (foldl update_pair
               (st\<lparr>correct_total :=
                     correct_total st + int (length (filter (\<lambda>p. p = hd y_true) y_pred))\<rparr>)
               (map (\<lambda>p. (hd y_true, p)) (take 1 y_pred)))
      else Inl RuntimeError)"
proof (cases "length y_pred = 1")
  case True
  then have yp: "y_pred = [hd y_pred]" by (rule length_one_hd)
  have "eq_sum y_pred y_true = Inr (int (length (filter (\<lambda>t. t = hd y_pred) y_true)))"
    using assms True by (simp add: eq_sum_def count_eq_broadcast_left)
  moreover have "zip y_true y_pred = map (\<lambda>t. (t, hd y_pred)) (take 1 y_true)"
    using zip_singleton_right [of y_true "hd y_pred"] yp by simp
  ultimately show ?thesis using True by (simp add: update_per_class_dict_def)
next
  case False
  show ?thesis
  proof (cases "length y_true = 1")
    case True
    then have yt: "y_true = [hd y_true]" by (rule length_one_hd)
    have "eq_sum y_pred y_true = Inr (int (length (filter (\<lambda>p. p = hd y_true) y_pred)))"
      using assms False True by (simp add: eq_sum_def count_eq_broadcast_right)
    moreover have "zip y_true y_pred = map (\<lambda>p. (hd y_true, p)) (take 1 y_pred)"
      using zip_singleton_left [of "hd y_true" y_pred] yt by simp
    ultimately show ?thesis using False True by (simp add: update_per_class_dict_def)
  next
    case ne: False
    with False assms show ?thesis by (simp add: update_per_class_dict_def eq_sum_def)
  qed
qed

theorem update_length_mismatch_witness:
  "length [0, 1 :: int] \<noteq> length [0, 1, 2 :: int] \<and>
   update_per_class_dict initialize_per_class_dict [0, 1] [0, 1, 2] = Inl RuntimeError \<and>
   length [5 :: int] \<noteq> length ([] :: int list) \<and>
   update_per_class_dict initialize_per_class_dict [5] [] = Inr initialize_per_class_dict \<and>
   length [0, 1, 1 :: int] \<noteq> length [1 :: int] \<and>
   update_per_class_dict initialize_per_class_dict [0, 1, 1] [1]
     = Inr \<lparr>correct_total = 2, total_per_class = [(1, 1)], correct_per_class = [],
            wrong_predictions = [(1, [0])], predicted_as_class = [(0, 1)]\<rparr>"
  using update_length_mismatch [of "[0, 1]" "[0, 1, 2]" initialize_per_class_dict]
    update_length_mismatch [of "[5]" "[]" initialize_per_class_dict]
    update_length_mismatch [of "[0, 1, 1]" "[1]" initialize_per_class_dict]
  by (simp add: initialize_per_class_dict_def update_pair_def dd_incr_def dd_append_def
      dict_get_def)

text \<open>
  A prediction tensor of length 1 against three labels: no error, three correct
  predictions counted in total, one sample counted per class.
\<close>

theorem update_length_mismatch_counterexample:
  "length [0 :: int] \<noteq> length [0, 0, 0 :: int] \<and>
   update_per_class_dict initialize_per_class_dict [0] [0, 0, 0]
     = Inr \<lparr>correct_total = 3, total_per_class = [(0, 1)], correct_per_class = [(0, 1)],
            wrong_predictions = [], predicted_as_class = [(0, 1)]\<rparr>"
  by (simp add: update_per_class_dict_def eq_sum_def count_eq_def update_pair_def
      initialize_per_class_dict_def dd_incr_def dict_get_def)

section \<open>Metrics computation\<close>

lemma class_step_sums:
  "macro_f1_sum (foldl (class_step cpc tpc wp pac) loop_init (map int [0..<k]))
     = sum_list (map (class_f1 cpc wp pac) (map int [0..<k]))"
  by (induction k) (simp_all add: loop_init_def class_step_def Let_def)

lemma class_step_dicts:
  assumes "j < k"
  shows "map_of (precision_dict (foldl (class_step cpc tpc wp pac) loop_init (map int [0..<k]))) (int j)
           = Some (class_precision cpc pac (int j)) \<and>
         map_of (recall_dict (foldl (class_step cpc tpc wp pac) loop_init (map int [0..<k]))) (int j)
           = Some (class_recall cpc wp (int j)) \<and>
         map_of (f1_dict (foldl (class_step cpc tpc wp pac) loop_init (map int [0..<k]))) (int j)
           = Some (class_f1 cpc wp pac (int j))"
  using assms
proof (induction k)
  case 0
  then show ?case by simp
next
  case (Suc k)
  show ?case
  proof (cases "j = k")
    case True
    then show ?thesis by (simp add: class_step_def Let_def update_conv')
  next
    case False
    with Suc.prems have "j < k" by simp
    from Suc.IH [OF this] False show ?thesis
      by (simp add: class_step_def Let_def update_conv')
  qed
qed

lemma compute_returns:
  assumes "n \<noteq> 0" and "ps y_true y_pred = Inr mp" and "rs y_true y_pred = Inr mr"
  shows "compute_classification_metrics ps rs cpc tpc wp pac y_true y_pred n =
     Inr [(''per_class_precision'',
             ClassDict (precision_dict (foldl (class_step cpc tpc wp pac) loop_init (py_range n)))),
          (''per_class_recall'',
             ClassDict (recall_dict (foldl (class_step cpc tpc wp pac) loop_init (py_range n)))),
          (''per_class_f1'',
             ClassDict (f1_dict (foldl (class_step cpc tpc wp pac) loop_init (py_range n)))),
          (''macro_precision'', Num mp),
          (''macro_recall'', Num mr),
          (''macro_f1'', Num (sum_list (map (class_f1 cpc wp pac) (py_range n)) / of_int n)),
          (''weighted_f1'',
             Num (if dict_values_sum tpc > 0
                  then weighted_f1_sum (foldl (class_step cpc tpc wp pac) loop_init (py_range n))
                         / of_int (dict_values_sum tpc)
                  else 0))]"
  using assms
  by (simp add: compute_classification_metrics_def Let_def py_div_def py_range_def class_step_sums)

lemma compute_zero_classes:
  "compute_classification_metrics ps rs cpc tpc wp pac y_true y_pred 0 = Inl ZeroDivisionError"
  by (simp add: compute_classification_metrics_def Let_def py_div_def)

lemma ratio_unit:
  fixes a b :: int
  assumes "0 \<le> a" and "0 \<le> b"
  shows "0 \<le> (if a + b > 0 then (of_int a :: rat) / of_int (a + b) else 0) \<and>
         (if a + b > 0 then (of_int a :: rat) / of_int (a + b) else 0) \<le> 1"
  using assms by (simp add: divide_le_eq)

lemma harmonic_unit:
  fixes p r :: rat
  assumes "0 \<le> p" "p \<le> 1" "0 \<le> r" "r \<le> 1"
  shows "0 \<le> (if p + r > 0 then 2 * p * r / (p + r) else 0) \<and>
         (if p + r > 0 then 2 * p * r / (p + r) else 0) \<le> 1"
proof (cases "p + r > 0")
  case True
  have "p * r \<le> p * 1" using assms by (intro mult_left_mono) auto
  moreover have "p * r \<le> 1 * r" using assms by (intro mult_right_mono) auto
  ultimately have "2 * p * r \<le> p + r" by simp
  moreover have "0 \<le> 2 * p * r" using assms by simp
  ultimately show ?thesis using True by (simp add: divide_le_eq)
next
  case False
  then show ?thesis by simp
qed

lemma class_bounds:
  assumes "class_counts_ok st"
  shows "0 \<le> class_fp (correct_per_class st) (predicted_as_class st) i"
    and "0 \<le> class_precision (correct_per_class st) (predicted_as_class st) i"
    and "class_precision (correct_per_class st) (predicted_as_class st) i \<le> 1"
    and "0 \<le> class_recall (correct_per_class st) (wrong_predictions st) i"
    and "class_recall (correct_per_class st) (wrong_predictions st) i \<le> 1"
    and "0 \<le> class_f1 (correct_per_class st) (wrong_predictions st) (predicted_as_class st) i"
    and "class_f1 (correct_per_class st) (wrong_predictions st) (predicted_as_class st) i \<le> 1"
proof -
  have tp: "0 \<le> class_tp (correct_per_class st) i"
    and fp: "0 \<le> class_fp (correct_per_class st) (predicted_as_class st) i"
    using assms by (simp_all add: class_counts_ok_def class_tp_def class_fp_def)
  have fn: "0 \<le> class_fn (wrong_predictions st) i"
    by (simp add: class_fn_def)
  show "0 \<le> class_fp (correct_per_class st) (predicted_as_class st) i" by (rule fp)
  have p: "0 \<le> class_precision (correct_per_class st) (predicted_as_class st) i \<and>
           class_precision (correct_per_class st) (predicted_as_class st) i \<le> 1"
    using ratio_unit [OF tp fp] by (simp add: class_precision_def Let_def)
  have r: "0 \<le> class_recall (correct_per_class st) (wrong_predictions st) i \<and>
           class_recall (correct_per_class st) (wrong_predictions st) i \<le> 1"
    using ratio_unit [OF tp fn] by (simp add: class_recall_def Let_def)
  from p show "0 \<le> class_precision (correct_per_class st) (predicted_as_class st) i"
    and "class_precision (correct_per_class st) (predicted_as_class st) i \<le> 1" by simp_all
  from r show "0 \<le> class_recall (correct_per_class st) (wrong_predictions st) i"
    and "class_recall (correct_per_class st) (wrong_predictions st) i \<le> 1" by simp_all
  have "0 \<le> class_f1 (correct_per_class st) (wrong_predictions st) (predicted_as_class st) i \<and>
        class_f1 (correct_per_class st) (wrong_predictions st) (predicted_as_class st) i \<le> 1"
    using harmonic_unit [of "class_precision (correct_per_class st) (predicted_as_class st) i"
        "class_recall (correct_per_class st) (wrong_predictions st) i"] p r
    by (simp add: class_f1_def Let_def)
  then show "0 \<le> class_f1 (correct_per_class st) (wrong_predictions st) (predicted_as_class st) i"
    and "class_f1 (correct_per_class st) (wrong_predictions st) (predicted_as_class st) i \<le> 1"
    by simp_all
qed

lemma zero_support_f1:
  assumes "class_counts_ok st" and "class_support (total_per_class st) i = 0"
  shows "class_f1 (correct_per_class st) (wrong_predictions st) (predicted_as_class st) i = 0"
proof -
  have "0 \<le> dict_get (correct_per_class st) i 0"
    and "dict_get (correct_per_class st) i 0 + int (length (dict_get (wrong_predictions st) i []))
           = dict_get (total_per_class st) i 0"
    using assms(1) by (simp_all add: class_counts_ok_def)
  with assms(2) have "class_tp (correct_per_class st) i = 0"
    by (simp add: class_support_def class_tp_def)
  then show ?thesis
    by (simp add: class_f1_def class_precision_def class_recall_def Let_def)
qed

lemma zero_denominators:
  "class_tp cpc i + class_fp cpc pac i \<le> 0 \<Longrightarrow> class_precision cpc pac i = 0"
  "class_tp cpc i + class_fn wp i \<le> 0 \<Longrightarrow> class_recall cpc wp i = 0"
  "class_precision cpc pac i + class_recall cpc wp i \<le> 0 \<Longrightarrow> class_f1 cpc wp pac i = 0"
  by (simp_all add: class_precision_def class_recall_def class_f1_def Let_def)

text \<open>
  C4: for the counts of any pass and any configured \<open>num_classes\<close> other than 0 the
  metrics computation returns, and its \<open>macro_f1\<close> is the sum of the per-class F1 scores
  over \<^verbatim>\<open>range(num_classes)\<close> divided by \<open>num_classes\<close>; a class with zero support has
  F1 score 0. (For \<open>num_classes = 0\<close> the division raises, see \<open>compute_zero_classes\<close>.)
\<close>

theorem macro_f1_over_all_classes:
  assumes "update_all initialize_per_class_dict bs = Inr st"
    and "n \<noteq> 0"
    and "ps y_true y_pred = Inr mp" and "rs y_true y_pred = Inr mr"
  shows "\<exists>m. compute_classification_metrics ps rs (correct_per_class st) (total_per_class st)
               (wrong_predictions st) (predicted_as_class st) y_true y_pred n = Inr m \<and>
             map_of m ''macro_f1''
               = Some (Num (sum_list (map (class_f1 (correct_per_class st) (wrong_predictions st)
                                              (predicted_as_class st)) (py_range n)) / of_int n)) \<and>
             (\<forall>i. class_support (total_per_class st) i = 0 \<longrightarrow>
                  class_f1 (correct_per_class st) (wrong_predictions st) (predicted_as_class st) i = 0)"
proof -
  have ok: "class_counts_ok st"
    using class_counts_ok_update_all [OF class_counts_ok_init assms(1)] .
  show ?thesis
    using compute_returns [of n ps y_true y_pred mp rs mr] assms(2-4) zero_support_f1 [OF ok]
    by simp
qed

theorem macro_f1_over_all_classes_witness:
  "update_all initialize_per_class_dict [([0, 1, 1, 2, 0, 2], [0, 0, 1, 2, 2, 2])]
     = Inr \<lparr>correct_total = 4, total_per_class = [(0, 2), (1, 1), (2, 3)],
            correct_per_class = [(0, 1), (1, 1), (2, 2)],
            wrong_predictions = [(0, [1]), (2, [0])],
            predicted_as_class = [(0, 2), (1, 2), (2, 2)]\<rparr> \<and>
   (4 :: int) \<noteq> 0 \<and>
   (\<exists>m. compute_classification_metrics (const_score 1) (const_score 1)
          [(0, 1), (1, 1), (2, 2)] [(0, 2), (1, 1), (2, 3)] [(0, [1]), (2, [0])]
          [(0, 2), (1, 2), (2, 2)] [0, 0, 1, 2, 2, 2] [0, 1, 1, 2, 0, 2] 4 = Inr m \<and>
        map_of m ''macro_f1'' = Some (Num (59 / 120))) \<and>
   class_support [(0, 2), (1, 1), (2, 3)] 3 = 0 \<and>
   class_f1 [(0, 1), (1, 1), (2, 2)] [(0, [1]), (2, [0])] [(0, 2), (1, 2), (2, 2)] 3 = 0"
proof -
  have h: "update_all initialize_per_class_dict [([0, 1, 1, 2, 0, 2], [0, 0, 1, 2, 2, 2])]
     = Inr \<lparr>correct_total = 4, total_per_class = [(0, 2), (1, 1), (2, 3)],
            correct_per_class = [(0, 1), (1, 1), (2, 2)],
            wrong_predictions = [(0, [1]), (2, [0])],
            predicted_as_class = [(0, 2), (1, 2), (2, 2)]\<rparr>"
    by (simp add: update_per_class_dict_def eq_sum_def count_eq_def update_pair_def
      initialize_per_class_dict_def dd_incr_def dd_append_def dict_get_def)
  have r: "py_range 4 = [0, 1, 2, 3]"
    by (simp add: py_range_def upt_conv_Cons)
  have f: "class_f1 [(0, 1), (1, 1), (2, 2)] [(0, [1]), (2, [0])] [(0, 2), (1, 2), (2, 2)] 0 = 1/2"
    "class_f1 [(0, 1), (1, 1), (2, 2)] [(0, [1]), (2, [0])] [(0, 2), (1, 2), (2, 2)] 1 = 2/3"
    "class_f1 [(0, 1), (1, 1), (2, 2)] [(0, [1]), (2, [0])] [(0, 2), (1, 2), (2, 2)] 2 = 4/5"
    "class_f1 [(0, 1), (1, 1), (2, 2)] [(0, [1]), (2, [0])] [(0, 2), (1, 2), (2, 2)] 3 = 0"
    by (simp_all add: class_f1_def class_precision_def class_recall_def class_tp_def class_fp_def
        class_fn_def dict_get_def Let_def)
  have s: "class_support [(0, 2), (1, 1), (2, 3)] 3 = 0"
    by (simp add: class_support_def dict_get_def)
  have "\<exists>m. compute_classification_metrics (const_score 1) (const_score 1)
          [(0, 1), (1, 1), (2, 2)] [(0, 2), (1, 1), (2, 3)] [(0, [1]), (2, [0])]
          [(0, 2), (1, 2), (2, 2)] [0, 0, 1, 2, 2, 2] [0, 1, 1, 2, 0, 2] 4 = Inr m \<and>
        map_of m ''macro_f1'' = Some (Num (59 / 120))"
    using macro_f1_over_all_classes [OF h, of 4 "const_score 1" "[0, 0, 1, 2, 2, 2]"
        "[0, 1, 1, 2, 0, 2]" 1 "const_score 1" 1]
    by (auto simp: const_score_def r f)
  then show ?thesis using h s f(4) by simp
qed

lemma class_dicts_at:
  assumes "0 \<le> i" and "i < n"
  shows "map_of (precision_dict (foldl (class_step cpc tpc wp pac) loop_init (py_range n))) i
           = Some (class_precision cpc pac i) \<and>
         map_of (recall_dict (foldl (class_step cpc tpc wp pac) loop_init (py_range n))) i
           = Some (class_recall cpc wp i) \<and>
         map_of (f1_dict (foldl (class_step cpc tpc wp pac) loop_init (py_range n))) i
           = Some (class_f1 cpc wp pac i)"
proof -
  have "nat i < nat n" and "int (nat i) = i" using assms by simp_all
  then show ?thesis
    using class_step_dicts [of "nat i" "nat n" cpc tpc wp pac] by (simp add: py_range_def)
qed

text \<open>
  C5: for the counts of any pass and every class \<open>i\<close> in \<^verbatim>\<open>range(num_classes)\<close> the
  metrics computation returns per-class precision, recall and F1 entries for \<open>i\<close> that lie
  in \<open>[0, 1]\<close>; \<open>fp\<close> is not negative, and a zero denominator gives exactly 0.
\<close>

theorem per_class_metrics_in_unit_interval:
  assumes "update_all initialize_per_class_dict bs = Inr st"
    and "0 \<le> i" and "i < n"
    and "ps y_true y_pred = Inr mp" and "rs y_true y_pred = Inr mr"
  shows "\<exists>m pd rd fd p r f.
      compute_classification_metrics ps rs (correct_per_class st) (total_per_class st)
        (wrong_predictions st) (predicted_as_class st) y_true y_pred n = Inr m \<and>
      map_of m ''per_class_precision'' = Some (ClassDict pd) \<and> map_of pd i = Some p \<and>
      map_of m ''per_class_recall'' = Some (ClassDict rd) \<and> map_of rd i = Some r \<and>
      map_of m ''per_class_f1'' = Some (ClassDict fd) \<and> map_of fd i = Some f \<and>
      0 \<le> p \<and> p \<le> 1 \<and> 0 \<le> r \<and> r \<le> 1 \<and> 0 \<le> f \<and> f \<le> 1 \<and>
      0 \<le> class_fp (correct_per_class st) (predicted_as_class st) i \<and>
      (class_tp (correct_per_class st) i
         + class_fp (correct_per_class st) (predicted_as_class st) i = 0 \<longrightarrow> p = 0) \<and>
      (class_tp (correct_per_class st) i + class_fn (wrong_predictions st) i = 0 \<longrightarrow> r = 0) \<and>
      (p + r = 0 \<longrightarrow> f = 0)"
proof -
  let ?cpc = "correct_per_class st" and ?tpc = "total_per_class st"
  let ?wp = "wrong_predictions st" and ?pac = "predicted_as_class st"
  let ?acc = "foldl (class_step ?cpc ?tpc ?wp ?pac) loop_init (py_range n)"
  have ok: "class_counts_ok st"
    using class_counts_ok_update_all [OF class_counts_ok_init assms(1)] .
  have n: "n \<noteq> 0" using assms(2,3) by simp
  obtain m where m: "compute_classification_metrics ps rs ?cpc ?tpc ?wp ?pac y_true y_pred n = Inr m"
    and mp: "map_of m ''per_class_precision'' = Some (ClassDict (precision_dict ?acc))"
    and mr: "map_of m ''per_class_recall'' = Some (ClassDict (recall_dict ?acc))"
    and mf: "map_of m ''per_class_f1'' = Some (ClassDict (f1_dict ?acc))"
    using compute_returns [of n ps y_true y_pred mp rs mr ?cpc ?tpc ?wp ?pac] n assms(4,5)
    by simp
  note d = class_dicts_at [OF assms(2,3), of ?cpc ?tpc ?wp ?pac]
  note b = class_bounds [OF ok, of i]
  note z = zero_denominators
  show ?thesis
    apply (rule exI [of _ m])
    apply (rule exI [of _ "precision_dict ?acc"])
    apply (rule exI [of _ "recall_dict ?acc"])
    apply (rule exI [of _ "f1_dict ?acc"])
    apply (rule exI [of _ "class_precision ?cpc ?pac i"])
    apply (rule exI [of _ "class_recall ?cpc ?wp i"])
    apply (rule exI [of _ "class_f1 ?cpc ?wp ?pac i"])
    using m mp mr mf d b z by simp
qed

theorem per_class_metrics_in_unit_interval_witness:
  "update_all initialize_per_class_dict [([0, 0], [0, 0])]
     = Inr \<lparr>correct_total = 2, total_per_class = [(0, 2)], correct_per_class = [(0, 2)],
            wrong_predictions = [], predicted_as_class = [(0, 2)]\<rparr> \<and>
   (0 :: int) \<le> 2 \<and> (2 :: int) < 3 \<and>
   class_tp [(0, 2)] 2 + class_fp [(0, 2)] [(0, 2)] 2 = 0 \<and>
   class_tp [(0, 2)] 2 + class_fn [] 2 = 0 \<and>
   (\<exists>m pd rd fd.
      compute_classification_metrics (const_score 1) (const_score 1) [(0, 2)] [(0, 2)] []
        [(0, 2)] [0, 0] [0, 0] 3 = Inr m \<and>
      map_of m ''per_class_precision'' = Some (ClassDict pd) \<and> map_of pd 2 = Some 0 \<and>
      map_of m ''per_class_recall'' = Some (ClassDict rd) \<and> map_of rd 2 = Some 0 \<and>
      map_of m ''per_class_f1'' = Some (ClassDict fd) \<and> map_of fd 2 = Some 0)"
proof -
  have h: "update_all initialize_per_class_dict [([0, 0], [0, 0])]
     = Inr \<lparr>correct_total = 2, total_per_class = [(0, 2)], correct_per_class = [(0, 2)],
            wrong_predictions = [], predicted_as_class = [(0, 2)]\<rparr>"
    by (simp add: update_per_class_dict_def eq_sum_def count_eq_def update_pair_def
      initialize_per_class_dict_def dd_incr_def dd_append_def dict_get_def)
  have z: "class_tp [(0, 2)] 2 + class_fp [(0, 2)] [(0, 2)] 2 = 0"
    "class_tp [(0, 2)] 2 + class_fn [] 2 = 0"
    by (simp_all add: class_tp_def class_fp_def class_fn_def dict_get_def)
  have "\<exists>m pd rd fd.
      compute_classification_metrics (const_score 1) (const_score 1) [(0, 2)] [(0, 2)] []
        [(0, 2)] [0, 0] [0, 0] 3 = Inr m \<and>
      map_of m ''per_class_precision'' = Some (ClassDict pd) \<and> map_of pd 2 = Some 0 \<and>
      map_of m ''per_class_recall'' = Some (ClassDict rd) \<and> map_of rd 2 = Some 0 \<and>
      map_of m ''per_class_f1'' = Some (ClassDict fd) \<and> map_of fd 2 = Some 0"
    using per_class_metrics_in_unit_interval [OF h, of 2 3 "const_score 1" "[0, 0]" "[0, 0]" 1
        "const_score 1" 1] z
    by (auto simp: const_score_def)
  then show ?thesis using h z by simp
qed

section \<open>Return contract of the test pass\<close>

lemma finalize_metrics_shape:
  assumes "finalize_metrics ps rs st yt yp test_loader n = Inr m"
  shows "\<exists>pd rd fd mp mr mf wf oa.
           m = [(''per_class_precision'', ClassDict pd), (''per_class_recall'', ClassDict rd),
                (''per_class_f1'', ClassDict fd), (''macro_precision'', Num mp),
                (''macro_recall'', Num mr), (''macro_f1'', Num mf), (''weighted_f1'', Num wf),
                (''overall_accuracy'', Num oa), (''correct_labels'', Labels yt),
                (''predicted_labels'', Labels yp)]"
  using assms
  by (auto simp: finalize_metrics_def compute_classification_metrics_def Let_def
      split: sum.splits)

lemma test_batches_result:
  assumes "test_batches ps rs models test_loader n bs st yt yp bound = Inr (st', yt', yp', bound')"
  shows "yt' = yt @ concat (map label bs) \<and>
         (\<exists>preds. collect (map (\<lambda>s. predict_batch models (image s)) bs) = Inr preds \<and>
                  yp' = yp @ concat preds) \<and>
         (bs = [] \<and> bound' = bound \<or>
          (\<exists>m. bound' = Some m \<and> finalize_metrics ps rs st' yt' yp' test_loader n = Inr m))"
  using assms
proof (induction bs arbitrary: st yt yp bound)
  case Nil
  then show ?case by simp
next
  case (Cons s rest)
  from Cons.prems obtain logits y_pred_test st1 m1 where
    g: "get_models_predictions models (image s) = Inr logits"
    and a: "argmax_dim1 logits = Inr y_pred_test"
    and u: "update_per_class_dict st y_pred_test (label s) = Inr st1"
    and f: "finalize_metrics ps rs st1 (yt @ label s) (yp @ y_pred_test) test_loader n = Inr m1"
    and r: "test_batches ps rs models test_loader n rest st1 (yt @ label s) (yp @ y_pred_test)
              (Some m1) = Inr (st', yt', yp', bound')"
    by (auto split: sum.splits)
  have p: "predict_batch models (image s) = Inr y_pred_test"
    using g a by (simp add: predict_batch_def)
  from Cons.IH [OF r] obtain preds where
    i1: "yt' = (yt @ label s) @ concat (map label rest)"
    and i2: "collect (map (\<lambda>s. predict_batch models (image s)) rest) = Inr preds"
    and i3: "yp' = (yp @ y_pred_test) @ concat preds"
    and i4: "rest = [] \<and> bound' = Some m1 \<or>
             (\<exists>m. bound' = Some m \<and> finalize_metrics ps rs st' yt' yp' test_loader n = Inr m)"
    by blast
  have "\<exists>m. bound' = Some m \<and> finalize_metrics ps rs st' yt' yp' test_loader n = Inr m"
  proof (cases "rest = []")
    case True
    with r have "st' = st1" "yt' = yt @ label s" "yp' = yp @ y_pred_test" "bound' = Some m1"
      by simp_all
    with f show ?thesis by simp
  next
    case False
    with i4 show ?thesis by simp
  qed
  moreover have "collect (map (\<lambda>s. predict_batch models (image s)) (s # rest))
                   = Inr (y_pred_test # preds)"
    using p i2 by simp
  ultimately show ?case using i1 i3 by simp
qed

text \<open>
  C8: a test pass that completes returns a mapping with exactly the ten keys of the
  contract, in this order: three per-class dictionaries, five numbers, and under
  \<open>correct_labels\<close> and \<open>predicted_labels\<close> the labels and the predictions of all batches
  of the pass, in order.
\<close>

theorem test_model_return_contract:
  assumes "test_model ps rs models test_loader verbose = Inr m"
  shows "\<exists>pd rd fd mp mr mf wf oa preds.
           collect (map (\<lambda>s. predict_batch (ensure_model_list models) (image s))
                      (batches test_loader)) = Inr preds \<and>
           m = [(''per_class_precision'', ClassDict pd), (''per_class_recall'', ClassDict rd),
                (''per_class_f1'', ClassDict fd), (''macro_precision'', Num mp),
                (''macro_recall'', Num mr), (''macro_f1'', Num mf), (''weighted_f1'', Num wf),
                (''overall_accuracy'', Num oa),
                (''correct_labels'', Labels (concat (map label (batches test_loader)))),
                (''predicted_labels'', Labels (concat preds))]"
proof -
  from assms obtain m0 ms st yt yp where
    ml: "ensure_model_list models = m0 # ms"
    and tb: "test_batches ps rs (m0 # ms) test_loader (num_classes m0) (batches test_loader)
               initialize_per_class_dict [] [] None = Inr (st, yt, yp, Some m)"
    by (auto simp: test_model_def split: list.splits sum.splits if_splits option.splits)
  from test_batches_result [OF tb] obtain preds where
    yt: "yt = concat (map label (batches test_loader))"
    and pr: "collect (map (\<lambda>s. predict_batch (m0 # ms) (image s)) (batches test_loader)) = Inr preds"
    and yp: "yp = concat preds"
    and fin: "finalize_metrics ps rs st yt yp test_loader (num_classes m0) = Inr m"
    by auto
  from finalize_metrics_shape [OF fin] yt yp pr ml show ?thesis by auto
qed

theorem test_model_return_contract_witness:
  "test_model (const_score 1) (const_score 1) (Single (const_model 0 [[Finite (1/10), Finite (9/10)],
        [Finite (3/10), Finite (2/10)]] 2))
     (mk_loader [one_batch [1, 1], one_batch [0, 0]] 4) False
   = Inr [(''per_class_precision'', ClassDict [(0, 1/2), (1, 1/2)]),
          (''per_class_recall'', ClassDict [(0, 1/2), (1, 1/2)]),
          (''per_class_f1'', ClassDict [(0, 1/2), (1, 1/2)]),
          (''macro_precision'', Num 1), (''macro_recall'', Num 1),
          (''macro_f1'', Num (1/2)), (''weighted_f1'', Num (1/2)),
          (''overall_accuracy'', Num 50),
          (''correct_labels'', Labels [1, 1, 0, 0]),
          (''predicted_labels'', Labels [1, 0, 1, 0])]"
proof -
  have r: "py_range 2 = [0, 1]" by (simp add: py_range_def upt_conv_Cons)
  have t: "test_model (const_score 1) (const_score 1)
             (Single (const_model 0 [[Finite (1/10), Finite (9/10)],
        [Finite (3/10), Finite (2/10)]] 2))
             (mk_loader [one_batch [1, 1], one_batch [0, 0]] 4) False
           = Inr [(''per_class_precision'', ClassDict [(0, 1/2), (1, 1/2)]),
          (''per_class_recall'', ClassDict [(0, 1/2), (1, 1/2)]),
          (''per_class_f1'', ClassDict [(0, 1/2), (1, 1/2)]),
          (''macro_precision'', Num 1), (''macro_recall'', Num 1),
          (''macro_f1'', Num (1/2)), (''weighted_f1'', Num (1/2)),
          (''overall_accuracy'', Num 50),
          (''correct_labels'', Labels [1, 1, 0, 0]),
          (''predicted_labels'', Labels [1, 0, 1, 0])]"
    by (simp add: test_model_def ensure_model_list_def const_model_def mk_loader_def one_batch_def
        const_score_def get_models_predictions_def stack_mean_def tensor_div_def forward_def
        fl_round_def float_max_def float_overflow_def
        argmax_dim1_def argmax_row_def update_per_class_dict_def eq_sum_def count_eq_def
        update_pair_def initialize_per_class_dict_def dd_incr_def dd_append_def dict_get_def
        finalize_metrics_def compute_classification_metrics_def py_div_def dict_values_sum_def
        r loop_init_def class_step_def class_support_def class_f1_def class_precision_def
        class_recall_def class_tp_def class_fp_def class_fn_def Let_def)
  from test_model_return_contract [OF t] show ?thesis using t by simp
qed

end
